theory Spec2Isabelle
  imports Complex_Main "HOL-Library.Word"
begin

section \<open>JavaScript values\<close>

text \<open>
  A JavaScript string is a sequence of UTF-16 code units. The literals of \<open>main.js\<close>
  are written as ASCII pieces joined with the code units of their accented letters and
  symbols (all of them in the Basic Multilingual Plane, one code unit each).
\<close>

type_synonym code_unit = "16 word"
type_synonym jsstring = "code_unit list"

definition lit :: "string \<Rightarrow> jsstring" where
  "lit s = map (\<lambda>c. of_nat (of_char c)) s"

definition a_tilde :: code_unit where "a_tilde = 0xE3"
definition c_cedilla :: code_unit where "c_cedilla = 0xE7"
definition e_acute :: code_unit where "e_acute = 0xE9"
definition o_acute :: code_unit where "o_acute = 0xF3"
definition degree_sign :: code_unit where "degree_sign = 0xB0"
definition em_dash :: code_unit where "em_dash = 0x2014"
definition ellipsis :: code_unit where "ellipsis = 0x2026"

text \<open>
  A number is an IEEE double: not-a-number, an infinity, or a finite value, which is a
  rational. The finite doubles are a subset of the rationals and \<open>Math.round\<close> is exact
  on them, so the model ranges over all rationals. Negative zero prints as \<open>0\<close> and is
  not told apart.
\<close>

datatype jsnum = NaN | PosInf | NegInf | Finite rat

text \<open>
  A field of a parsed JSON object, or an argument: missing (\<open>undefined\<close>), \<open>null\<close>, or
  a value of the type the endpoint documents for it.
\<close>

datatype 'a jsval = Undefined | Null | Val 'a

text \<open>
  What the host supplies. \<open>Number::toString\<close> prints the shortest digits that read back
  as the same double, which only an integer up to \<open>2^53\<close> in magnitude is sure to share
  with its exact decimal numeral. So the host gives the digit string of a value that is
  not an integer (\<open>fraction_digits\<close>), the shortest significand of an integer above
  \<open>2^53\<close> and below \<open>10^21\<close> (\<open>significand\<close>: the integer of fewest digits that,
  followed by zeros up to the number of digits of the value, reads back as the same
  double), and the mantissa and exponent of an integer from \<open>10^21\<close> on
  (\<open>exponent_digits\<close>). It also gives the date formatting of
  \<open>Date.prototype.toLocaleString\<close> under the locale \<open>pt-BR\<close> with the options of
  \<open>formatTimeISOToLocal\<close>, which throws (\<open>None\<close>) on a time-zone name it does not know;
  and the message of the \<open>TypeError\<close> it throws when a property of \<open>undefined\<close> or
  \<open>null\<close> is read.
\<close>

record platform =
  fraction_digits :: "rat \<Rightarrow> jsstring"
  significand :: "nat \<Rightarrow> nat"
  exponent_digits :: "nat \<Rightarrow> jsstring \<times> nat"
  toLocaleString :: "jsstring \<Rightarrow> jsstring jsval \<Rightarrow> jsstring option"
  cannot_read :: jsstring

definition digit :: "nat \<Rightarrow> code_unit" where
  "digit d = of_nat (48 + d)"

fun digits :: "nat \<Rightarrow> jsstring" where
  "digits n = (if n < 10 then [digit n] else digits (n div 10) @ [digit (n mod 10)])"

declare digits.simps [simp del]

definition pad_zeros :: "jsstring \<Rightarrow> nat \<Rightarrow> jsstring" where
  "pad_zeros s n = s @ replicate (n - length s) (digit 0)"

text \<open>
  \<open>Number::toString\<close> on a non-negative finite value: an integer up to \<open>2^53\<close> is its
  decimal digits; an integer above \<open>2^53\<close> and below \<open>10^21\<close> is the digits of its
  shortest significand followed by zeros, as many digits in all as the integer has (so
  \<open>2^66 = 73786976294838206464\<close> prints as \<open>73786976294838210000\<close>); an integer from
  \<open>10^21\<close> on is \<open><mantissa>e+<exponent>\<close>; anything else is the host's digit string.
\<close>

definition magnitude_to_string :: "platform \<Rightarrow> rat \<Rightarrow> jsstring" where
  "magnitude_to_string P x =
     (if x = of_int \<lfloor>x\<rfloor> then
        (if \<lfloor>x\<rfloor> \<le> 2 ^ 53 then digits (nat \<lfloor>x\<rfloor>)
         else if \<lfloor>x\<rfloor> < 10 ^ 21
           then pad_zeros (digits (significand P (nat \<lfloor>x\<rfloor>))) (length (digits (nat \<lfloor>x\<rfloor>)))
         else (case exponent_digits P (nat \<lfloor>x\<rfloor>) of (m, e) \<Rightarrow> m @ lit ''e+'' @ digits e))
      else fraction_digits P x)"

fun number_to_string :: "platform \<Rightarrow> jsnum \<Rightarrow> jsstring" where
  "number_to_string P NaN = lit ''NaN''"
| "number_to_string P PosInf = lit ''Infinity''"
| "number_to_string P NegInf = lit ''-Infinity''"
| "number_to_string P (Finite x) =
     (if x < 0 then lit ''-'' @ magnitude_to_string P (- x) else magnitude_to_string P x)"

text \<open>String conversion inside a template literal or a \<open>+\<close> with a string.\<close>

fun string_of_num :: "platform \<Rightarrow> jsnum jsval \<Rightarrow> jsstring" where
  "string_of_num P Undefined = lit ''undefined''"
| "string_of_num P Null = lit ''null''"
| "string_of_num P (Val n) = number_to_string P n"

fun string_of_str :: "jsstring jsval \<Rightarrow> jsstring" where
  "string_of_str Undefined = lit ''undefined''"
| "string_of_str Null = lit ''null''"
| "string_of_str (Val s) = s"

text \<open>Truthiness: \<open>undefined\<close>, \<open>null\<close>, \<open>0\<close>, \<open>NaN\<close> and the empty string are falsy.\<close>

fun truthy_num :: "jsnum jsval \<Rightarrow> bool" where
  "truthy_num (Val n) = (n \<noteq> NaN \<and> n \<noteq> Finite 0)"
| "truthy_num _ = False"

fun truthy_str :: "jsstring jsval \<Rightarrow> bool" where
  "truthy_str (Val s) = (s \<noteq> [])"
| "truthy_str _ = False"

text \<open>\<open>Number(v)\<close> and \<open>Math.round\<close> (the nearest integer, a tie going up).\<close>

fun Number :: "jsnum jsval \<Rightarrow> jsnum" where
  "Number Undefined = NaN"
| "Number Null = Finite 0"
| "Number (Val n) = n"

fun Math_round :: "jsnum \<Rightarrow> jsnum" where
  "Math_round (Finite x) = Finite (of_int \<lfloor>x + 1 / 2\<rfloor>)"
| "Math_round n = n"

section \<open>The weather-code table\<close>

definition WEATHER_CODE_MAP :: "(int \<times> jsstring) list" where
  "WEATHER_CODE_MAP =
    [(0, lit ''C'' @ [e_acute] @ lit ''u limpo''),
     (1, lit ''Principalmente limpo''),
     (2, lit ''Parcialmente nublado''),
     (3, lit ''Nublado''),
     (45, lit ''Nevoeiro''),
     (48, lit ''Nevoeiro depositante''),
     (51, lit ''Garoa leve''),
     (53, lit ''Garoa''),
     (55, lit ''Garoa intensa''),
     (56, lit ''Garoa gelada leve''),
     (57, lit ''Garoa gelada intensa''),
     (61, lit ''Chuva fraca''),
     (63, lit ''Chuva''),
     (65, lit ''Chuva forte''),
     (66, lit ''Chuva gelada fraca''),
     (67, lit ''Chuva gelada forte''),
     (71, lit ''Neve fraca''),
     (73, lit ''Neve''),
     (75, lit ''Neve forte''),
     (77, lit ''Gr'' @ [a_tilde] @ lit ''os de neve''),
     (80, lit ''Aguaceiros fracos''),
     (81, lit ''Aguaceiros''),
     (82, lit ''Aguaceiros fortes''),
     (85, lit ''Aguaceiros de neve fracos''),
     (86, lit ''Aguaceiros de neve fortes''),
     (95, lit ''Trovoadas''),
     (96, lit ''Trovoadas com granizo leve''),
     (99, lit ''Trovoadas com granizo forte'')]"

text \<open>
  The keys of an object literal are strings: the numeric key \<open>45\<close> is the property
  \<open>"45"\<close>, and \<open>WEATHER_CODE_MAP[c]\<close> looks up the string conversion of \<open>c\<close>. The
  properties the object inherits are named by identifiers (\<open>toString\<close>, \<open>constructor\<close>),
  which the string of a number, of \<open>undefined\<close> or of \<open>null\<close> never is.
\<close>

definition property_key :: "int \<Rightarrow> jsstring" where
  "property_key k = (if k < 0 then lit ''-'' @ digits (nat (- k)) else digits (nat k))"

definition lookup_code :: "platform \<Rightarrow> jsnum jsval \<Rightarrow> jsstring option" where
  "lookup_code P c = map_of (map (\<lambda>(k, v). (property_key k, v)) WEATHER_CODE_MAP) (string_of_num P c)"

text \<open>
  The condition text of \<open>updateUI\<close>: the table entry when it is truthy, otherwise the
  fallback made of the word for "code" and the string conversion of \<open>c\<close>.
\<close>

definition code_text :: "platform \<Rightarrow> jsnum jsval \<Rightarrow> jsstring" where
  "code_text P c =
     (case lookup_code P c of
        Some s \<Rightarrow> if s \<noteq> [] then s else lit ''C'' @ [o_acute] @ lit ''digo '' @ string_of_num P c
      | None \<Rightarrow> lit ''C'' @ [o_acute] @ lit ''digo '' @ string_of_num P c)"

section \<open>The formatters\<close>

text \<open>\<open>formatNumber(v, unit = '')\<close>: a missing unit argument is the empty string.\<close>

definition formatNumber :: "platform \<Rightarrow> jsnum jsval \<Rightarrow> jsstring option \<Rightarrow> jsstring" where
  "formatNumber P v unit =
     (if v = Null \<or> v = Undefined \<or> v = Val NaN then [em_dash]
      else number_to_string P (Math_round (Number v)) @ (case unit of None \<Rightarrow> [] | Some u \<Rightarrow> u))"


text \<open>
  \<open>formatTimeISOToLocal(iso, tz)\<close>: the placeholder for a falsy \<open>iso\<close>, the host's
  rendering otherwise, and \<open>iso\<close> itself when the host throws.
\<close>

definition formatTimeISOToLocal :: "platform \<Rightarrow> jsstring jsval \<Rightarrow> jsstring jsval \<Rightarrow> jsstring" where
  "formatTimeISOToLocal P isoTime tz =
     (if \<not> truthy_str isoTime then [em_dash]
      else (case toLocaleString P (string_of_str isoTime) tz of
              Some d \<Rightarrow> d
            | None \<Rightarrow> string_of_str isoTime))"

section \<open>Errors and the network\<close>

text \<open>
  \<open>Error m\<close> is \<open>new Error(m)\<close> thrown by \<open>main.js\<close>; \<open>HostError m\<close> is an exception
  of the host with message \<open>m\<close>: the rejection of \<open>fetch\<close> on a transport failure, the
  rejection of \<open>res.json()\<close> on a body that is not JSON, a \<open>TypeError\<close>.
\<close>

datatype js_error = Error jsstring | HostError jsstring

fun message :: "js_error \<Rightarrow> jsstring" where
  "message (Error m) = m"
| "message (HostError m) = m"

record request =
  url :: jsstring
  searchParams :: "(jsstring \<times> jsstring) list"
  headers :: "(jsstring \<times> jsstring) list"

text \<open>
  What \<open>await fetch(url)\<close> gives: a rejection by the host (\<open>Inl\<close>, with the message of
  the exception), or a response with its \<open>ok\<close> flag (status in 200..299) and what
  \<open>await res.json()\<close> gives in turn: again a rejection by the host, or the parsed body.
\<close>

record 'a response =
  ok :: bool
  json :: "jsstring + 'a"

type_synonym 'a fetched = "jsstring + 'a response"

section \<open>Geocoding\<close>

record geo_result =
  r_name :: "jsstring jsval"
  r_admin1 :: "jsstring jsval"
  r_country :: "jsstring jsval"
  r_latitude :: "jsnum jsval"
  r_longitude :: "jsnum jsval"
  r_timezone :: "jsstring jsval"

text \<open>
  The body of the geocoding endpoint, in the shape the endpoint documents: an object
  whose \<open>results\<close> is missing (\<open>None\<close>) or an array of result objects. A body of
  another shape (\<open>null\<close>, a \<open>results\<close> that is not an array, an element that is
  \<open>null\<close>), on which reading \<open>data.results\<close> or \<open>r.name\<close> throws a \<open>TypeError\<close>,
  is outside this type.
\<close>

record geo_data =
  results :: "geo_result list option"

record place =
  name :: jsstring
  latitude :: "jsnum jsval"
  longitude :: "jsnum jsval"
  timezone :: "jsstring jsval"

definition geocodeCity_request :: "jsstring \<Rightarrow> request" where
  "geocodeCity_request nm =
     \<lparr>url = lit ''https://geocoding-api.open-meteo.com/v1/search'',
      searchParams = [(lit ''name'', nm), (lit ''language'', lit ''pt''), (lit ''count'', lit ''1'')],
      headers = [(lit ''Accept'', lit ''application/json'')]\<rparr>"

definition geocoding_failed :: jsstring where
  "geocoding_failed = lit ''Falha ao buscar geocodifica'' @ [c_cedilla, a_tilde] @ lit ''o''"

definition city_not_found :: jsstring where
  "city_not_found = lit ''Cidade n'' @ [a_tilde] @ lit ''o encontrada''"

text \<open>\<open>geocodeCity\<close> from the point where \<open>fetch\<close> has settled.\<close>

definition geocodeCity :: "geo_data fetched \<Rightarrow> js_error + place" where
  "geocodeCity fetched =
     (case fetched of
        Inl m \<Rightarrow> Inl (HostError m)
      | Inr res \<Rightarrow>
          if \<not> ok res then Inl (Error geocoding_failed)
          else (case json res of
                  Inl m \<Rightarrow> Inl (HostError m)
                | Inr data \<Rightarrow>
                    (case results data of
                       None \<Rightarrow> Inl (Error city_not_found)
                     | Some [] \<Rightarrow> Inl (Error city_not_found)
                     | Some (r # _) \<Rightarrow>
                         Inr \<lparr>name = string_of_str (r_name r)
                                 @ (if truthy_str (r_admin1 r) then lit '', '' @ string_of_str (r_admin1 r) else [])
                                 @ (if truthy_str (r_country r) then lit '' - '' @ string_of_str (r_country r) else []),
                              latitude = r_latitude r,
                              longitude = r_longitude r,
                              timezone = r_timezone r\<rparr>)))"

section \<open>Current weather\<close>

record current_conditions =
  time :: "jsstring jsval"
  temperature_2m :: "jsnum jsval"
  apparent_temperature :: "jsnum jsval"
  relative_humidity_2m :: "jsnum jsval"
  pressure_msl :: "jsnum jsval"
  precipitation :: "jsnum jsval"
  cloud_cover :: "jsnum jsval"
  weather_code :: "jsnum jsval"
  wind_speed_10m :: "jsnum jsval"
  wind_direction_10m :: "jsnum jsval"

record weather =
  current :: "current_conditions jsval"
  w_timezone :: "jsstring jsval"

fun join :: "jsstring \<Rightarrow> jsstring list \<Rightarrow> jsstring" where
  "join sep [] = []"
| "join sep [x] = x"
| "join sep (x # y # ys) = x @ sep @ join sep (y # ys)"

definition getWeather_request :: "platform \<Rightarrow> jsnum jsval \<Rightarrow> jsnum jsval \<Rightarrow> jsstring jsval \<Rightarrow> request" where
  "getWeather_request P lat lon tz =
     \<lparr>url = lit ''https://api.open-meteo.com/v1/forecast'',
      searchParams =
        [(lit ''latitude'', string_of_num P lat),
         (lit ''longitude'', string_of_num P lon),
         (lit ''timezone'', if truthy_str tz then string_of_str tz else lit ''auto''),
         (lit ''current'',
            join (lit '','')
              [lit ''temperature_2m'', lit ''apparent_temperature'', lit ''relative_humidity_2m'',
               lit ''pressure_msl'', lit ''precipitation'', lit ''cloud_cover'', lit ''weather_code'',
               lit ''wind_speed_10m'', lit ''wind_direction_10m''])],
      headers = [(lit ''Accept'', lit ''application/json'')]\<rparr>"

definition weather_failed :: jsstring where
  "weather_failed = lit ''Falha ao buscar clima''"

text \<open>\<open>getWeather\<close> from the point where \<open>fetch\<close> has settled.\<close>

definition getWeather :: "weather fetched \<Rightarrow> js_error + weather" where
  "getWeather fetched =
     (case fetched of
        Inl m \<Rightarrow> Inl (HostError m)
      | Inr res \<Rightarrow>
          if \<not> ok res then Inl (Error weather_failed)
          else (case json res of
                  Inl m \<Rightarrow> Inl (HostError m)
                | Inr data \<Rightarrow> Inr data))"

section \<open>The page\<close>

record ui_elements =
  location :: jsstring
  obsTime :: jsstring
  temp :: jsstring
  code :: jsstring
  wind :: jsstring
  humidity :: jsstring
  apparent :: jsstring
  pressure :: jsstring
  precip :: jsstring
  cloud :: jsstring

text \<open>
  The state a submission reads and writes: the status element (text and class), the
  \<open>hidden\<close> class of the weather section, the ten fields, the requests handed to
  \<open>fetch\<close> so far and what was written to the console.
\<close>

record page =
  statusText :: jsstring
  statusClass :: jsstring
  weatherHidden :: bool
  ui :: ui_elements
  sent :: "request list"
  console :: "js_error list"

definition setStatus :: "jsstring \<Rightarrow> jsstring option \<Rightarrow> page \<Rightarrow> page" where
  "setStatus msg type st =
     st\<lparr>statusText := (if msg \<noteq> [] then msg else []),
        statusClass := lit ''status '' @ (case type of None \<Rightarrow> lit ''info'' | Some t \<Rightarrow> t)\<rparr>"

definition showWeatherSection :: "bool \<Rightarrow> page \<Rightarrow> page" where
  "showWeatherSection show st = st\<lparr>weatherHidden := \<not> show\<rparr>"

text \<open>
  \<open>updateUI\<close> writes the location, then reads \<open>current.time\<close>, which throws when the
  payload has no \<open>current\<close> object; the fields written before the throw stay written.
\<close>

definition updateUI :: "platform \<Rightarrow> place \<Rightarrow> weather \<Rightarrow> ui_elements \<Rightarrow> js_error option \<times> ui_elements" where
  "updateUI P city w u =
     (case current w of
        Val c \<Rightarrow>
          (None,
           u\<lparr>location := name city,
             obsTime := lit ''Atualizado: '' @ formatTimeISOToLocal P (time c) (w_timezone w),
             temp := formatNumber P (temperature_2m c) (Some ([degree_sign] @ lit ''C'')),
             code := code_text P (weather_code c),
             wind := formatNumber P (wind_speed_10m c) (Some (lit '' km/h'')) @ lit '' (''
                     @ (if truthy_num (wind_direction_10m c) then string_of_num P (wind_direction_10m c)
                        else [em_dash])
                     @ [degree_sign] @ lit '')'',
             humidity := formatNumber P (relative_humidity_2m c) (Some (lit ''%'')),
             apparent := formatNumber P (apparent_temperature c) (Some ([degree_sign] @ lit ''C'')),
             pressure := formatNumber P (pressure_msl c) (Some (lit '' hPa'')),
             precip := (if precipitation c \<noteq> Null \<and> precipitation c \<noteq> Undefined
                        then string_of_num P (precipitation c) else [em_dash]) @ lit '' mm'',
             cloud := formatNumber P (cloud_cover c) (Some (lit ''%''))\<rparr>)
      | _ \<Rightarrow> (Some (HostError (cannot_read P)), u\<lparr>location := name city\<rparr>))"

section \<open>A submission\<close>

text \<open>
  \<open>String.prototype.trim\<close> removes the white space and line terminators of ECMAScript
  from both ends.
\<close>

definition is_space :: "code_unit \<Rightarrow> bool" where
  "is_space c \<longleftrightarrow>
     c \<in> {0x09, 0x0A, 0x0B, 0x0C, 0x0D, 0x20, 0xA0, 0x1680, 0x2028, 0x2029, 0x202F, 0x205F, 0x3000, 0xFEFF}
     \<or> (0x2000 \<le> c \<and> c \<le> 0x200A)"

definition trim :: "jsstring \<Rightarrow> jsstring" where
  "trim s = rev (dropWhile is_space (rev (dropWhile is_space s)))"

text \<open>The \<open>catch\<close> block of \<open>handleSearch\<close>.\<close>

definition on_error :: "js_error \<Rightarrow> page \<Rightarrow> page" where
  "on_error err st =
     showWeatherSection False
       (setStatus (if message err \<noteq> [] then message err else lit ''Erro ao buscar dados'')
          (Some (lit ''error''))
          (st\<lparr>console := console st @ [err]\<rparr>))"

text \<open>
  \<open>handleSearch\<close> is an \<open>async\<close> function: it runs to its first \<open>await\<close>
  (\<open>handleSearch_submit\<close>, which returns the request it waits for, or nothing when it has
  returned), is resumed when the geocoding request settles and runs to the second
  \<open>await\<close> (\<open>handleSearch_geocoded\<close>), and is resumed when the weather request settles
  (\<open>handleSearch_weathered\<close>). \<open>fetch\<close> appends its request to \<open>sent\<close>. The call
  \<open>e.preventDefault()\<close> acts on the event alone.
\<close>

definition fetch :: "request \<Rightarrow> page \<Rightarrow> page" where
  "fetch req st = st\<lparr>sent := sent st @ [req]\<rparr>"

definition handleSearch_submit :: "jsstring \<Rightarrow> page \<Rightarrow> page \<times> request option" where
  "handleSearch_submit input_value st =
     (let q = trim input_value in
      if q = [] then (st, None)
      else (fetch (geocodeCity_request q)
              (showWeatherSection False
                 (setStatus (lit ''Buscando cidade'' @ [ellipsis]) (Some (lit ''info'')) st)),
            Some (geocodeCity_request q)))"

definition handleSearch_geocoded ::
  "platform \<Rightarrow> geo_data fetched \<Rightarrow> page \<Rightarrow> page \<times> (place \<times> request) option" where
  "handleSearch_geocoded P fetched st =
     (case geocodeCity fetched of
        Inl err \<Rightarrow> (on_error err st, None)
      | Inr city \<Rightarrow>
          (fetch (getWeather_request P (latitude city) (longitude city) (timezone city))
             (setStatus (lit ''Buscando clima'' @ [ellipsis]) (Some (lit ''info'')) st),
           Some (city, getWeather_request P (latitude city) (longitude city) (timezone city))))"

definition handleSearch_weathered :: "platform \<Rightarrow> place \<Rightarrow> weather fetched \<Rightarrow> page \<Rightarrow> page" where
  "handleSearch_weathered P city fetched st =
     (case getWeather fetched of
        Inl err \<Rightarrow> on_error err st
      | Inr w \<Rightarrow>
          (case updateUI P city w (ui st) of
             (Some err, u) \<Rightarrow> on_error err (st\<lparr>ui := u\<rparr>)
           | (None, u) \<Rightarrow> showWeatherSection True (setStatus [] None (st\<lparr>ui := u\<rparr>))))"

text \<open>
  The network answers each request: \<open>geocoding\<close> and \<open>forecast\<close> give what the two
  endpoints do with the request they receive.
\<close>

record network =
  geocoding :: "request \<Rightarrow> geo_data fetched"
  forecast :: "request \<Rightarrow> weather fetched"

definition handleSearch :: "platform \<Rightarrow> network \<Rightarrow> jsstring \<Rightarrow> page \<Rightarrow> page" where
  "handleSearch P net input_value st =
     (case handleSearch_submit input_value st of
        (st1, None) \<Rightarrow> st1
      | (st1, Some req) \<Rightarrow>
          (case handleSearch_geocoded P (geocoding net req) st1 of
             (st2, None) \<Rightarrow> st2
           | (st2, Some (city, req2)) \<Rightarrow> handleSearch_weathered P city (forecast net req2) st2))"


section \<open>Inputs of the examples\<close>

text \<open>
  A host for the examples. It stands for a browser on the values the examples use: a
  fraction is printed as its integer part followed by \<open>.5\<close> (the examples use halves
  only), \<open>2^66\<close> and \<open>2^67\<close> have the significands a browser finds for them, the integers
  from \<open>10^21\<close> on are their leading digits and the exponent 21, and every instant is the
  same text in the one time zone it knows.
\<close>

definition sample_host :: platform where
  "sample_host =
     \<lparr>fraction_digits = (\<lambda>x. digits (nat \<lfloor>x\<rfloor>) @ lit ''.5''),
      significand = (\<lambda>n. if n = 2 ^ 66 then 7378697629483821
                         else if n = 2 ^ 67 then 14757395258967641 else n),
      exponent_digits = (\<lambda>n. (digits (n div 10 ^ 21), 21)),
      toLocaleString = (\<lambda>s tz. if tz = Val (lit ''America/Sao_Paulo'')
                                  then Some (lit ''02/11, 10:00'') else None),
      cannot_read = lit ''Cannot read properties of undefined''\<rparr>"

definition sao_paulo :: geo_result where
  "sao_paulo =
     \<lparr>r_name = Val (lit ''S'' @ [a_tilde] @ lit ''o Paulo''),
      r_admin1 = Val (lit ''SP''),
      r_country = Val (lit ''Brazil''),
      r_latitude = Val (Finite (- 47 / 2)),
      r_longitude = Val (Finite (- 93 / 2)),
      r_timezone = Val (lit ''America/Sao_Paulo'')\<rparr>"

definition sao_paulo_found :: "geo_data fetched" where
  "sao_paulo_found = Inr \<lparr>ok = True, json = Inr \<lparr>results = Some [sao_paulo]\<rparr>\<rparr>"

definition nothing_found :: "geo_data fetched" where
  "nothing_found = Inr \<lparr>ok = True, json = Inr \<lparr>results = Some []\<rparr>\<rparr>"

definition sample_conditions :: current_conditions where
  "sample_conditions =
     \<lparr>time = Val (lit ''2026-11-02T10:00''),
      temperature_2m = Val (Finite (108 / 5)),
      apparent_temperature = Val (Finite 23),
      relative_humidity_2m = Val (Finite 60),
      pressure_msl = Val (Finite 1013),
      precipitation = Val (Finite (3 / 2)),
      cloud_cover = Val (Finite 75),
      weather_code = Val (Finite 3),
      wind_speed_10m = Val (Finite 12),
      wind_direction_10m = Val (Finite 0)\<rparr>"

definition sample_payload :: weather where
  "sample_payload = \<lparr>current = Val sample_conditions, w_timezone = Val (lit ''America/Sao_Paulo'')\<rparr>"

definition sample_weather :: "weather fetched" where
  "sample_weather = Inr \<lparr>ok = True, json = Inr sample_payload\<rparr>"

definition sao_paulo_place :: place where
  "sao_paulo_place =
     \<lparr>name = lit ''S'' @ [a_tilde] @ lit ''o Paulo, SP - Brazil'',
      latitude = Val (Finite (- 47 / 2)),
      longitude = Val (Finite (- 93 / 2)),
      timezone = Val (lit ''America/Sao_Paulo'')\<rparr>"

text \<open>A page before any search, and four networks.\<close>

definition blank_page :: page where
  "blank_page =
     \<lparr>statusText = [], statusClass = lit ''status'', weatherHidden = True,
      ui = \<lparr>location = [], obsTime = [], temp = [], code = [], wind = [], humidity = [],
            apparent = [], pressure = [], precip = [], cloud = []\<rparr>,
      sent = [], console = []\<rparr>"

definition online :: network where
  "online = \<lparr>geocoding = (\<lambda>req. sao_paulo_found), forecast = (\<lambda>req. sample_weather)\<rparr>"

definition no_match :: network where
  "no_match = \<lparr>geocoding = (\<lambda>req. nothing_found), forecast = (\<lambda>req. sample_weather)\<rparr>"

definition silent_failure :: network where
  "silent_failure = \<lparr>geocoding = (\<lambda>req. Inl []), forecast = (\<lambda>req. sample_weather)\<rparr>"

definition forecast_down :: network where
  "forecast_down =
     \<lparr>geocoding = (\<lambda>req. sao_paulo_found),
      forecast = (\<lambda>req. Inr \<lparr>ok = False, json = Inl (lit ''Unexpected token'')\<rparr>)\<rparr>"

text \<open>The requests to the weather endpoint among a list of requests.\<close>

definition weather_requests :: "request list \<Rightarrow> request list" where
  "weather_requests rs = filter (\<lambda>r. url r = lit ''https://api.open-meteo.com/v1/forecast'') rs"

text \<open>The number a string of decimal digits denotes, for the proofs about \<open>digits\<close>.\<close>

definition undigits :: "jsstring \<Rightarrow> nat" where
  "undigits s = foldl (\<lambda>a c. 10 * a + (unat c - 48)) 0 s"

section \<open>Strings and numbers\<close>

lemma lit_simps [simp]: "lit [] = []" "lit (c # cs) = of_nat (of_char c) # lit cs"
  by (simp_all add: lit_def)

lemma digit_unat: "d < 10 \<Longrightarrow> unat (digit d) = 48 + d"
  unfolding digit_def by (rule of_nat_inverse [OF refl]) simp

lemma digits_nonempty: "digits n \<noteq> []"
  by (subst digits.simps) simp

lemma digits_range: "c \<in> set (digits n) \<Longrightarrow> 48 \<le> unat c \<and> unat c \<le> 57"
proof (induction n rule: digits.induct)
  case (1 n)
  show ?case
  proof (cases "n < 10")
    case True
    with "1.prems" have "c = digit n" by (subst (asm) digits.simps) simp
    with True show ?thesis by (simp add: digit_unat)
  next
    case False
    with "1.prems" have "c \<in> set (digits (n div 10)) \<or> c = digit (n mod 10)"
      by (subst (asm) digits.simps) auto
    then show ?thesis
    proof
      assume "c \<in> set (digits (n div 10))"
      with False "1.IH" show ?thesis by simp
    next
      assume "c = digit (n mod 10)"
      then show ?thesis by (simp add: digit_unat)
    qed
  qed
qed

lemma undigits_digits: "undigits (digits n) = n"
proof (induction n rule: digits.induct)
  case (1 n)
  show ?case
  proof (cases "n < 10")
    case True
    then show ?thesis by (subst digits.simps) (simp add: undigits_def digit_unat)
  next
    case False
    with "1.IH" have "undigits (digits (n div 10)) = n div 10" by simp
    with False show ?thesis
      by (subst digits.simps) (simp add: undigits_def digit_unat)
  qed
qed

lemma digits_inj: "digits m = digits n \<Longrightarrow> m = n"
  by (metis undigits_digits)

lemma hyphen_not_digit: "(0x2D :: code_unit) \<notin> set (digits n)"
proof
  assume "(0x2D :: code_unit) \<in> set (digits n)"
  then have "48 \<le> unat (0x2D :: code_unit)" by (rule digits_range [THEN conjunct1])
  then show False by simp
qed

lemma letter_e_not_digit: "(0x65 :: code_unit) \<notin> set (digits n)"
proof
  assume "(0x65 :: code_unit) \<in> set (digits n)"
  then have "unat (0x65 :: code_unit) \<le> 57" by (rule digits_range [THEN conjunct2])
  then show False by simp
qed

lemma hyphen_digits: "lit ''-'' @ digits a \<noteq> digits b"
proof
  assume "lit ''-'' @ digits a = digits b"
  then have "(0x2D :: code_unit) # digits a = digits b" by simp
  then have "(0x2D :: code_unit) \<in> set (digits b)" by (metis list.set_intros(1))
  with hyphen_not_digit show False by blast
qed

lemma property_key_inj: "property_key j = property_key k \<Longrightarrow> j = k"
  using hyphen_digits [of "nat (- j)" "nat k"] hyphen_digits [of "nat (- k)" "nat j"]
    digits_inj [of "nat (- j)" "nat (- k)"] digits_inj [of "nat j" "nat k"]
  by (auto simp: property_key_def split: if_splits)

lemma letter_e_not_key: "(0x65 :: code_unit) \<notin> set (property_key k)"
  using letter_e_not_digit by (simp add: property_key_def)

lemma length_digits_small: "n < 100 \<Longrightarrow> length (digits n) \<le> 2"
proof -
  assume small: "n < 100"
  show ?thesis
  proof (cases "n < 10")
    case True
    then show ?thesis by (subst digits.simps) simp
  next
    case False
    from small have "n div 10 < 10" by simp
    then have "length (digits (n div 10)) = 1" by (subst digits.simps) simp
    with False show ?thesis by (subst digits.simps) simp
  qed
qed

lemma length_digits_large: "100 \<le> n \<Longrightarrow> 3 \<le> length (digits n)"
proof -
  assume large: "100 \<le> n"
  then have a: "digits n = digits (n div 10) @ [digit (n mod 10)]"
    by (subst digits.simps) simp
  from large have "10 \<le> n div 10" by simp
  then have b: "digits (n div 10) = digits (n div 10 div 10) @ [digit (n div 10 mod 10)]"
    by (subst digits.simps) simp
  have "1 \<le> length (digits (n div 10 div 10))"
    using digits_nonempty [of "n div 10 div 10"] by (cases "digits (n div 10 div 10)") simp_all
  with a b show ?thesis by simp
qed

lemma length_pad_zeros: "n \<le> length (pad_zeros s n)"
  by (simp add: pad_zeros_def)

lemma replicate_four: "replicate 4 x = [x, x, x, x]"
  by (simp add: eval_nat_numeral)

lemma length_property_key: "0 \<le> k \<Longrightarrow> k \<le> 99 \<Longrightarrow> length (property_key k) \<le> 2"
  using length_digits_small [of "nat k"] by (simp add: property_key_def)

lemma magnitude_of_int:
  "0 \<le> n \<Longrightarrow> magnitude_to_string P (of_int n) =
     (if n \<le> 2 ^ 53 then digits (nat n)
      else if n < 10 ^ 21 then pad_zeros (digits (significand P (nat n))) (length (digits (nat n)))
      else (case exponent_digits P (nat n) of (m, e) \<Rightarrow> m @ lit ''e+'' @ digits e))"
  by (simp add: magnitude_to_string_def)

lemma number_to_string_small:
  "\<bar>n\<bar> \<le> 2 ^ 53 \<Longrightarrow> number_to_string P (Finite (of_int n)) = property_key n"
  using magnitude_of_int [of n P] magnitude_of_int [of "- n" P]
  by (auto simp: property_key_def)

lemma number_to_string_padded:
  "2 ^ 53 < \<bar>n\<bar> \<Longrightarrow> \<bar>n\<bar> < 10 ^ 21 \<Longrightarrow> 3 \<le> length (number_to_string P (Finite (of_int n)))"
proof -
  assume lo: "2 ^ 53 < \<bar>n\<bar>" and hi: "\<bar>n\<bar> < 10 ^ 21"
  let ?m = "nat \<bar>n\<bar>"
  from lo have "100 \<le> ?m" by simp
  then have "3 \<le> length (digits ?m)" by (rule length_digits_large)
  also have "\<dots> \<le> length (pad_zeros (digits (significand P ?m)) (length (digits ?m)))"
    by (rule length_pad_zeros)
  finally have pad: "3 \<le> length (pad_zeros (digits (significand P ?m)) (length (digits ?m)))" .
  show ?thesis
  proof (cases "n < 0")
    case True
    with lo hi magnitude_of_int [of "- n" P] pad show ?thesis by simp
  next
    case False
    with lo hi magnitude_of_int [of n P] pad show ?thesis by simp
  qed
qed

lemma number_to_string_large:
  "10 ^ 21 \<le> \<bar>n\<bar> \<Longrightarrow> (0x65 :: code_unit) \<in> set (number_to_string P (Finite (of_int n)))"
  using magnitude_of_int [of n P] magnitude_of_int [of "- n" P]
  by (auto split: prod.splits)

lemma floor_rat_numeral: "\<lfloor>numeral a / numeral b :: rat\<rfloor> = numeral a div numeral b"
  by (metis floor_divide_of_int_eq of_int_numeral)

lemma floor_half: "\<lfloor>1 / 2 :: rat\<rfloor> = 0"
  by (simp add: floor_eq_iff)

lemma round_interval: "43 / 2 \<le> x \<Longrightarrow> x < 45 / 2 \<Longrightarrow> \<lfloor>x + 1 / 2 :: rat\<rfloor> = 22"
  by (simp add: floor_eq_iff)

lemma round_nearest: "\<bar>of_int \<lfloor>x + 1 / 2 :: rat\<rfloor> - x\<bar> \<le> 1 / 2"
  by linarith

lemmas number_defs = formatNumber_def magnitude_to_string_def digits.simps digit_def floor_rat_numeral

lemmas sample_defs = sample_host_def sao_paulo_def sao_paulo_found_def nothing_found_def
  sample_conditions_def sample_payload_def sample_weather_def sao_paulo_place_def blank_page_def online_def
  no_match_def

section \<open>The code lookup\<close>

lemma map_of_keys:
  "(\<And>j k. f j = f k \<Longrightarrow> j = k) \<Longrightarrow> map_of (map (\<lambda>(k, v). (f k, v)) xs) (f n) = map_of xs n"
  by (induction xs) auto

lemma lookup_is_key:
  "map_of (map (\<lambda>(k, v). (property_key k, v)) xs) s = Some v \<Longrightarrow>
     \<exists>k. s = property_key k \<and> k \<in> fst ` set xs"
  by (induction xs) (auto split: if_splits)

lemma table_keys: "k \<in> fst ` set WEATHER_CODE_MAP \<Longrightarrow> 0 \<le> k \<and> k \<le> 99"
  by (auto simp: WEATHER_CODE_MAP_def)

lemma lookup_code_small:
  "\<bar>n\<bar> \<le> 2 ^ 53 \<Longrightarrow> lookup_code P (Val (Finite (of_int n))) = map_of WEATHER_CODE_MAP n"
  using map_of_keys [of property_key WEATHER_CODE_MAP n] property_key_inj
  by (simp add: lookup_code_def number_to_string_small del: number_to_string.simps)

lemma lookup_code_large:
  "2 ^ 53 < \<bar>n\<bar> \<Longrightarrow> lookup_code P (Val (Finite (of_int n))) = None"
proof (rule ccontr)
  assume big: "2 ^ 53 < \<bar>n\<bar>" and "lookup_code P (Val (Finite (of_int n))) \<noteq> None"
  then obtain v where "map_of (map (\<lambda>(k, v). (property_key k, v)) WEATHER_CODE_MAP)
      (number_to_string P (Finite (of_int n))) = Some v"
    by (auto simp: lookup_code_def)
  then have "\<exists>k. number_to_string P (Finite (of_int n)) = property_key k \<and> k \<in> fst ` set WEATHER_CODE_MAP"
    by (rule lookup_is_key)
  then obtain k where k: "number_to_string P (Finite (of_int n)) = property_key k"
    and "k \<in> fst ` set WEATHER_CODE_MAP" by blast
  then have short: "length (number_to_string P (Finite (of_int n))) \<le> 2"
    using table_keys [of k] length_property_key [of k] by simp
  show False
  proof (cases "\<bar>n\<bar> < 10 ^ 21")
    case True
    with big number_to_string_padded [of n P] short show False by simp
  next
    case False
    then have "10 ^ 21 \<le> \<bar>n\<bar>" by simp
    with number_to_string_large [of n P] k letter_e_not_key [of k] show False by simp
  qed
qed

lemma table_entries: "map_of WEATHER_CODE_MAP n = Some s \<Longrightarrow> 0 \<le> n \<and> n \<le> 99 \<and> s \<noteq> []"
  by (auto simp: WEATHER_CODE_MAP_def split: if_splits)

lemma table_None_large: "2 ^ 53 < \<bar>n\<bar> \<Longrightarrow> map_of WEATHER_CODE_MAP n = None"
  using table_entries [of n] by (cases "map_of WEATHER_CODE_MAP n") auto

lemma lookup_code_int: "lookup_code P (Val (Finite (of_int n))) = map_of WEATHER_CODE_MAP n"
  using lookup_code_small [of n P] lookup_code_large [of n P] table_None_large [of n]
  by (cases "\<bar>n\<bar> \<le> 2 ^ 53") auto

lemma code_text_nonempty: "code_text P c \<noteq> []"
  by (simp add: code_text_def split: option.splits)

text \<open>
  C2. The code lookup is total. For every integer code \<open>n\<close> the condition text is a
  non-empty string: the entry of \<open>WEATHER_CODE_MAP\<close> when \<open>n\<close> is one of its keys, and
  otherwise the fallback made of \<open>C\<close>, o-acute, \<open>digo\<close>, a space and the string
  conversion of \<open>n\<close>, which is the decimal numeral of \<open>n\<close> when \<open>n\<close> is at most \<open>2^53\<close>
  in magnitude (beyond that it is the shortest digits that read back as the same double).
  The code 3 gives \<open>Nublado\<close>.
\<close>

theorem code_lookup_total:
  "code_text P (Val (Finite (of_int n))) \<noteq> []
   \<and> (\<forall>s. map_of WEATHER_CODE_MAP n = Some s \<longrightarrow> code_text P (Val (Finite (of_int n))) = s)
   \<and> (map_of WEATHER_CODE_MAP n = None \<longrightarrow>
        code_text P (Val (Finite (of_int n)))
          = lit ''C'' @ [o_acute] @ lit ''digo '' @ number_to_string P (Finite (of_int n)))
   \<and> (map_of WEATHER_CODE_MAP n = None \<and> \<bar>n\<bar> \<le> 2 ^ 53 \<longrightarrow>
        code_text P (Val (Finite (of_int n))) = lit ''C'' @ [o_acute] @ lit ''digo '' @ property_key n)
   \<and> code_text P (Val (Finite 3)) = lit ''Nublado''"
proof -
  have three: "code_text P (Val (Finite 3)) = lit ''Nublado''"
    using lookup_code_int [of P 3] by (simp add: code_text_def WEATHER_CODE_MAP_def)
  have hit: "\<And>s. map_of WEATHER_CODE_MAP n = Some s \<Longrightarrow> code_text P (Val (Finite (of_int n))) = s"
    using table_entries [of n] by (simp add: code_text_def lookup_code_int)
  have miss: "map_of WEATHER_CODE_MAP n = None \<Longrightarrow>
        code_text P (Val (Finite (of_int n)))
          = lit ''C'' @ [o_acute] @ lit ''digo '' @ number_to_string P (Finite (of_int n))"
    by (simp add: code_text_def lookup_code_int del: number_to_string.simps)
  from three hit miss code_text_nonempty [of P] show ?thesis
    by (simp add: number_to_string_small del: number_to_string.simps)
qed

theorem code_lookup_total_witness:
  "map_of WEATHER_CODE_MAP 45 = Some (lit ''Nevoeiro'')
   \<and> code_text sample_host (Val (Finite 45)) = lit ''Nevoeiro''
   \<and> map_of WEATHER_CODE_MAP 4 = None \<and> \<bar>4 :: int\<bar> \<le> 2 ^ 53
   \<and> code_text sample_host (Val (Finite 4)) = lit ''C'' @ [o_acute] @ lit ''digo 4''
   \<and> map_of WEATHER_CODE_MAP (2 ^ 67) = None
   \<and> code_text sample_host (Val (Finite (2 ^ 67))) = lit ''C'' @ [o_acute] @ lit ''digo 147573952589676410000''"
  using code_lookup_total [of sample_host 45] code_lookup_total [of sample_host 4]
    code_lookup_total [of sample_host "2 ^ 67"]
  by (simp add: WEATHER_CODE_MAP_def property_key_def magnitude_to_string_def digits.simps digit_def
      sample_host_def pad_zeros_def replicate_four)

section \<open>The numeric formatter\<close>

lemma formatNumber_number:
  "formatNumber P (Val v) unit =
     (if v = NaN then [em_dash]
      else number_to_string P (Math_round v) @ (case unit of None \<Rightarrow> [] | Some u \<Rightarrow> u))"
  by (simp add: formatNumber_def)

lemma rounded_is_small: "\<bar>x\<bar> < 2 ^ 53 \<Longrightarrow> \<bar>\<lfloor>x + 1 / 2 :: rat\<rfloor>\<bar> \<le> 2 ^ 53"
proof -
  assume "\<bar>x\<bar> < 2 ^ 53"
  then have "\<bar>x\<bar> < 9007199254740992" by simp
  then have "- 9007199254740992 \<le> x + 1 / 2" and "x + 1 / 2 < 9007199254740992 + 1"
    by linarith+
  then have "- 9007199254740992 \<le> \<lfloor>x + 1 / 2\<rfloor>" and "\<lfloor>x + 1 / 2\<rfloor> \<le> 9007199254740992"
    by (simp_all add: floor_le_iff le_floor_iff)
  then have "\<bar>\<lfloor>x + 1 / 2\<rfloor>\<bar> \<le> 9007199254740992" by linarith
  then show ?thesis by simp
qed

lemma Math_round_twice: "Math_round (Math_round v) = Math_round v"
  by (cases v) (simp_all add: floor_half)

lemma formatNumber_rounded: "formatNumber P (Val (Math_round v)) unit = formatNumber P (Val v) unit"
  by (cases v) (simp_all add: formatNumber_def floor_half)

text \<open>
  C3. \<open>formatNumber\<close> returns the em dash for \<open>null\<close>, \<open>undefined\<close> and \<open>NaN\<close>. For
  every other number it returns the string of the number rounded by \<open>Math.round\<close>
  followed by the unit: for a finite \<open>x\<close> that is the integer \<open>floor (x + 1/2)\<close>, which
  is within one half of \<open>x\<close>, printed as its decimal numeral when \<open>x\<close> is below \<open>2^53\<close>
  in magnitude. Every value from 21.5 up to but not including 22.5 (so 21.6, and the double
  nearest to it) with the unit degree-C gives \<open>22\<close> degree-C. The formatter is idempotent
  on rounded values: rounding a rounded number changes nothing, a rounded number is
  rendered as the number it was rounded from is, and an integer \<open>n\<close> is rendered as the
  string of \<open>n\<close> itself, its decimal numeral when \<open>n\<close> is at most \<open>2^53\<close> in magnitude
  (beyond that the language prints the shortest digits that read back as \<open>n\<close>).
\<close>

theorem formatNumber_rounds:
  "formatNumber P Null unit = [em_dash]
   \<and> formatNumber P Undefined unit = [em_dash]
   \<and> formatNumber P (Val NaN) unit = [em_dash]
   \<and> formatNumber P (Val v) (Some u) = (if v = NaN then [em_dash] else number_to_string P (Math_round v) @ u)
   \<and> formatNumber P (Val (Finite x)) (Some u) = number_to_string P (Finite (of_int \<lfloor>x + 1 / 2\<rfloor>)) @ u
   \<and> formatNumber P (Val (Finite x)) None = number_to_string P (Finite (of_int \<lfloor>x + 1 / 2\<rfloor>))
   \<and> \<bar>of_int \<lfloor>x + 1 / 2\<rfloor> - x\<bar> \<le> 1 / 2
   \<and> (\<bar>x\<bar> < 2 ^ 53 \<longrightarrow>
        formatNumber P (Val (Finite x)) (Some u) = property_key \<lfloor>x + 1 / 2\<rfloor> @ u)
   \<and> (43 / 2 \<le> x \<and> x < 45 / 2 \<longrightarrow>
        formatNumber P (Val (Finite x)) (Some ([degree_sign] @ lit ''C'')) = lit ''22'' @ [degree_sign] @ lit ''C'')
   \<and> formatNumber P (Val (Finite (108 / 5))) (Some ([degree_sign] @ lit ''C'')) = lit ''22'' @ [degree_sign] @ lit ''C''
   \<and> Math_round (Finite (of_int n)) = Finite (of_int n)
   \<and> Math_round (Math_round v) = Math_round v
   \<and> formatNumber P (Val (Math_round v)) unit = formatNumber P (Val v) unit
   \<and> formatNumber P (Val (Finite (of_int n))) (Some u) = number_to_string P (Finite (of_int n)) @ u
   \<and> (\<bar>n\<bar> \<le> 2 ^ 53 \<longrightarrow> formatNumber P (Val (Finite (of_int n))) (Some u) = property_key n @ u)"
proof -
  have key22: "property_key 22 = lit ''22''"
    by (simp add: property_key_def digits.simps digit_def)
  have c1: "formatNumber P Null unit = [em_dash]"
    and c2: "formatNumber P Undefined unit = [em_dash]"
    and c3: "formatNumber P (Val NaN) unit = [em_dash]"
    by (simp_all add: formatNumber_def)
  have c4: "formatNumber P (Val v) (Some u) = (if v = NaN then [em_dash] else number_to_string P (Math_round v) @ u)"
    by (simp add: formatNumber_number)
  have c5: "formatNumber P (Val (Finite x)) (Some u) = number_to_string P (Finite (of_int \<lfloor>x + 1 / 2\<rfloor>)) @ u"
    by (simp add: formatNumber_number del: number_to_string.simps)
  have c6: "formatNumber P (Val (Finite x)) None = number_to_string P (Finite (of_int \<lfloor>x + 1 / 2\<rfloor>))"
    by (simp add: formatNumber_number del: number_to_string.simps)
  have c7: "\<bar>of_int \<lfloor>x + 1 / 2\<rfloor> - x\<bar> \<le> 1 / 2"
    by (rule round_nearest)
  have c8: "\<bar>x\<bar> < 2 ^ 53 \<longrightarrow> formatNumber P (Val (Finite x)) (Some u) = property_key \<lfloor>x + 1 / 2\<rfloor> @ u"
    using rounded_is_small [of x] by (simp add: c5 number_to_string_small del: number_to_string.simps)
  have c9: "\<And>y. 43 / 2 \<le> y \<and> y < 45 / 2 \<longrightarrow>
        formatNumber P (Val (Finite y)) (Some ([degree_sign] @ lit ''C'')) = lit ''22'' @ [degree_sign] @ lit ''C''"
    using number_to_string_small [of 22 P] key22
    by (simp add: formatNumber_number round_interval del: number_to_string.simps)
  have c10: "formatNumber P (Val (Finite (108 / 5))) (Some ([degree_sign] @ lit ''C'')) = lit ''22'' @ [degree_sign] @ lit ''C''"
    using c9 [of "108 / 5"] by simp
  have c11: "Math_round (Finite (of_int n)) = Finite (of_int n)"
    by (simp add: floor_half)
  have c12: "Math_round (Math_round v) = Math_round v"
    by (rule Math_round_twice)
  have c13: "formatNumber P (Val (Math_round v)) unit = formatNumber P (Val v) unit"
    by (rule formatNumber_rounded)
  have c14: "formatNumber P (Val (Finite (of_int n))) (Some u) = number_to_string P (Finite (of_int n)) @ u"
    by (simp add: formatNumber_def floor_half del: number_to_string.simps)
  have c15: "\<bar>n\<bar> \<le> 2 ^ 53 \<longrightarrow> formatNumber P (Val (Finite (of_int n))) (Some u) = property_key n @ u"
    by (simp add: c14 number_to_string_small del: number_to_string.simps)
  from c1 c2 c3 c4 c5 c6 c7 c8 c9 [of x] c10 c11 c12 c13 c14 c15 show ?thesis
    by (intro conjI)
qed

theorem formatNumber_rounds_witness:
  "\<bar>108 / 5 :: rat\<bar> < 2 ^ 53 \<and> (43 / 2 :: rat) \<le> 108 / 5 \<and> (108 / 5 :: rat) < 45 / 2
   \<and> formatNumber sample_host (Val (Finite (108 / 5))) (Some ([degree_sign] @ lit ''C''))
       = lit ''22'' @ [degree_sign] @ lit ''C''
   \<and> \<bar>7 :: int\<bar> \<le> 2 ^ 53
   \<and> formatNumber sample_host (Val (Finite 7)) (Some (lit ''%'')) = lit ''7%''
   \<and> formatNumber sample_host (Val (Finite (2 ^ 66))) (Some ([degree_sign] @ lit ''C''))
       = lit ''73786976294838210000'' @ [degree_sign] @ lit ''C''"
  using formatNumber_rounds [of sample_host None "Finite 7" "lit ''%''" "108 / 5" 7]
    formatNumber_rounds [of sample_host None "Finite 7" "[degree_sign] @ lit ''C''" "108 / 5" "2 ^ 66"]
  by (simp add: number_defs property_key_def sample_host_def pad_zeros_def replicate_four)

section \<open>The outcomes of geocoding\<close>

lemma messages_differ: "city_not_found \<noteq> geocoding_failed"
  by (simp add: city_not_found_def geocoding_failed_def)

text \<open>
  C1. On a successful response whose \<open>results\<close> array is not empty, \<open>geocodeCity\<close>
  returns a place made from the first result alone (the same as when the array holds that
  result only), with the coordinates and time zone of that result. Its name is the
  result's name, then a comma, a space and the region when \<open>admin1\<close> is a non-empty
  string, then a space, a hyphen, a space and the country when \<open>country\<close> is a non-empty
  string; the region part is left out when \<open>admin1\<close> is missing, \<open>null\<close> or empty, and
  the country part when \<open>country\<close> is missing, \<open>null\<close> or empty. The result named Sao Paulo (a-tilde for
  its second letter) with region SP and country Brazil gives that name followed by
  \<open>, SP - Brazil\<close>.
\<close>

theorem geocodeCity_first_result:
  "\<exists>p. geocodeCity (Inr \<lparr>ok = True, json = Inr \<lparr>results = Some (r # rs)\<rparr>\<rparr>) = Inr p
     \<and> geocodeCity (Inr \<lparr>ok = True, json = Inr \<lparr>results = Some [r]\<rparr>\<rparr>) = Inr p
     \<and> latitude p = r_latitude r \<and> longitude p = r_longitude r \<and> timezone p = r_timezone r
     \<and> (\<forall>a c. r_admin1 r = Val a \<and> a \<noteq> [] \<and> r_country r = Val c \<and> c \<noteq> [] \<longrightarrow>
            name p = string_of_str (r_name r) @ lit '', '' @ a @ lit '' - '' @ c)
     \<and> (\<forall>c. r_admin1 r \<in> {Undefined, Null, Val []} \<and> r_country r = Val c \<and> c \<noteq> [] \<longrightarrow>
            name p = string_of_str (r_name r) @ lit '' - '' @ c)
     \<and> (\<forall>a. r_admin1 r = Val a \<and> a \<noteq> [] \<and> r_country r \<in> {Undefined, Null, Val []} \<longrightarrow>
            name p = string_of_str (r_name r) @ lit '', '' @ a)
     \<and> (r_admin1 r \<in> {Undefined, Null, Val []} \<and> r_country r \<in> {Undefined, Null, Val []} \<longrightarrow>
            name p = string_of_str (r_name r))
     \<and> (\<forall>n. r_name r = Val n \<longrightarrow> string_of_str (r_name r) = n)
     \<and> geocodeCity sao_paulo_found = Inr sao_paulo_place
     \<and> name sao_paulo_place = lit ''S'' @ [a_tilde] @ lit ''o Paulo, SP - Brazil''"
  by (auto simp: geocodeCity_def sample_defs)

theorem geocodeCity_first_result_witness:
  "r_admin1 sao_paulo = Val (lit ''SP'') \<and> r_country sao_paulo = Val (lit ''Brazil'')
   \<and> (\<exists>p. geocodeCity (Inr \<lparr>ok = True, json = Inr \<lparr>results = Some [sao_paulo, sao_paulo\<lparr>r_admin1 := Null\<rparr>]\<rparr>\<rparr>) = Inr p
          \<and> name p = lit ''S'' @ [a_tilde] @ lit ''o Paulo, SP - Brazil'')
   \<and> (\<exists>p. geocodeCity (Inr \<lparr>ok = True, json = Inr \<lparr>results = Some [sao_paulo\<lparr>r_admin1 := Null\<rparr>]\<rparr>\<rparr>) = Inr p
          \<and> name p = lit ''S'' @ [a_tilde] @ lit ''o Paulo - Brazil'')
   \<and> (\<exists>p. geocodeCity (Inr \<lparr>ok = True, json = Inr \<lparr>results = Some [sao_paulo\<lparr>r_country := Undefined\<rparr>]\<rparr>\<rparr>) = Inr p
          \<and> name p = lit ''S'' @ [a_tilde] @ lit ''o Paulo, SP'')
   \<and> (\<exists>p. geocodeCity (Inr \<lparr>ok = True, json = Inr \<lparr>results = Some [sao_paulo\<lparr>r_admin1 := Undefined, r_country := Null\<rparr>]\<rparr>\<rparr>) = Inr p
          \<and> name p = lit ''S'' @ [a_tilde] @ lit ''o Paulo'')"
  using geocodeCity_first_result [of sao_paulo "[sao_paulo\<lparr>r_admin1 := Null\<rparr>]"]
    geocodeCity_first_result [of "sao_paulo\<lparr>r_admin1 := Null\<rparr>" "[]"]
    geocodeCity_first_result [of "sao_paulo\<lparr>r_country := Undefined\<rparr>" "[]"]
    geocodeCity_first_result [of "sao_paulo\<lparr>r_admin1 := Undefined, r_country := Null\<rparr>" "[]"]
  by (auto simp: sao_paulo_def)

text \<open>
  C4, as the specification states it, fails: a response with a 2xx status whose body is
  not JSON has neither zero results nor a failed HTTP call, and \<open>geocodeCity\<close> returns no
  place for it; it fails with the parser's exception.
\<close>

theorem geocodeCity_body_not_json_counterexample:
  "geocodeCity (Inr \<lparr>ok = True, json = Inl (lit ''Unexpected token'')\<rparr>)
     = Inl (HostError (lit ''Unexpected token''))"
  by (simp add: geocodeCity_def)

text \<open>
  C4, amended, for the outcomes of \<open>fetch\<close> in which the body, when it parses, has the
  documented shape (an object whose \<open>results\<close> is missing or an array of result
  objects). Over these, \<open>geocodeCity\<close> fails with the error of message
  \<open>city_not_found\<close> exactly when a response with a 2xx status has a parsed body whose
  \<open>results\<close> array is missing or empty; it fails with the error of message
  \<open>geocoding_failed\<close> exactly when the response has a status outside 2xx; it fails with
  an exception of the host, passed on as it is, exactly when \<open>fetch\<close> rejects (a
  transport failure) or the body of a 2xx response is not JSON; and it returns a place
  exactly when a response with a 2xx status has a parsed body whose \<open>results\<close> array
  is not empty. A parsed body of another shape is not covered.
\<close>

theorem geocodeCity_outcomes:
  "(geocodeCity fetched = Inl (Error city_not_found) \<longleftrightarrow>
      (\<exists>res d. fetched = Inr res \<and> ok res \<and> json res = Inr d \<and> (results d = None \<or> results d = Some [])))
   \<and> (geocodeCity fetched = Inl (Error geocoding_failed) \<longleftrightarrow> (\<exists>res. fetched = Inr res \<and> \<not> ok res))
   \<and> (\<forall>m. geocodeCity fetched = Inl (HostError m) \<longleftrightarrow>
        fetched = Inl m \<or> (\<exists>res. fetched = Inr res \<and> ok res \<and> json res = Inl m))
   \<and> ((\<exists>p. geocodeCity fetched = Inr p) \<longleftrightarrow>
      (\<exists>res d r rs. fetched = Inr res \<and> ok res \<and> json res = Inr d \<and> results d = Some (r # rs)))"
  using messages_differ
  by (auto simp: geocodeCity_def split: sum.splits option.splits list.splits)

theorem geocodeCity_outcomes_witness:
  "geocodeCity nothing_found = Inl (Error city_not_found)
   \<and> geocodeCity (Inr \<lparr>ok = True, json = Inr \<lparr>results = None\<rparr>\<rparr>) = Inl (Error city_not_found)
   \<and> geocodeCity (Inr \<lparr>ok = False, json = Inr \<lparr>results = Some [sao_paulo]\<rparr>\<rparr>) = Inl (Error geocoding_failed)
   \<and> geocodeCity (Inl (lit ''Failed to fetch'')) = Inl (HostError (lit ''Failed to fetch''))
   \<and> geocodeCity sao_paulo_found = Inr sao_paulo_place"
  using geocodeCity_outcomes [of nothing_found]
    geocodeCity_outcomes [of "Inr \<lparr>ok = True, json = Inr \<lparr>results = None\<rparr>\<rparr>"]
    geocodeCity_outcomes [of "Inr \<lparr>ok = False, json = Inr \<lparr>results = Some [sao_paulo]\<rparr>\<rparr>"]
    geocodeCity_outcomes [of "Inl (lit ''Failed to fetch'')"]
    geocodeCity_outcomes [of sao_paulo_found]
  by (simp add: geocodeCity_def sample_defs)

section \<open>Empty queries and failed calls\<close>

lemmas run_defs = handleSearch_def handleSearch_submit_def handleSearch_geocoded_def handleSearch_weathered_def
  on_error_def setStatus_def showWeatherSection_def fetch_def geocodeCity_def getWeather_def
  geocodeCity_request_def trim_def is_space_def Let_def

lemma trim_empty_iff: "trim q = [] \<longleftrightarrow> (\<forall>c\<in>set q. is_space c)"
proof
  assume "trim q = []"
  then have "\<forall>c\<in>set (dropWhile is_space q). is_space c"
    by (simp add: trim_def dropWhile_eq_Nil_conv)
  then have "dropWhile is_space q = []"
    using hd_dropWhile [of is_space q] hd_in_set [of "dropWhile is_space q"] by blast
  then show "\<forall>c\<in>set q. is_space c" by (simp add: dropWhile_eq_Nil_conv)
next
  assume "\<forall>c\<in>set q. is_space c"
  then have "dropWhile is_space q = []" by (simp add: dropWhile_eq_Nil_conv)
  then show "trim q = []" by (simp add: trim_def del: dropWhile_eq_Nil_conv)
qed

text \<open>
  C5. When the trimmed query is empty, which is the case exactly when every code unit of
  the input is white space, \<open>handleSearch\<close> returns at once: it waits for no request, and
  the page is as it was, with the same requests sent, the same status text and class,
  the same visibility of the weather section and the same ten fields.
\<close>

theorem empty_query_rejected:
  assumes "trim q = [] \<or> (\<forall>c\<in>set q. is_space c)"
  shows "handleSearch_submit q st = (st, None) \<and> handleSearch P net q st = st
     \<and> sent (handleSearch P net q st) = sent st
     \<and> statusText (handleSearch P net q st) = statusText st
     \<and> statusClass (handleSearch P net q st) = statusClass st
     \<and> weatherHidden (handleSearch P net q st) = weatherHidden st
     \<and> ui (handleSearch P net q st) = ui st"
proof -
  from assms have "trim q = []" by (auto simp: trim_empty_iff)
  then have "handleSearch_submit q st = (st, None)" by (simp add: handleSearch_submit_def)
  then show ?thesis by (simp add: handleSearch_def)
qed

theorem empty_query_rejected_witness:
  "trim (lit '' '' @ [0x3000, 0x09]) = []
   \<and> handleSearch sample_host online (lit '' '' @ [0x3000, 0x09]) blank_page = blank_page
   \<and> trim [] = [] \<and> handleSearch sample_host online [] blank_page = blank_page"
  using empty_query_rejected [of "lit '' '' @ [0x3000, 0x09]" blank_page sample_host online]
    empty_query_rejected [of "[]" blank_page sample_host online]
  by (simp add: trim_def is_space_def)

lemma on_error_fields:
  "statusText (on_error err st) = (if message err = [] then lit ''Erro ao buscar dados'' else message err)"
  "statusClass (on_error err st) = lit ''status error''"
  "weatherHidden (on_error err st)"
  "ui (on_error err st) = ui st"
  "sent (on_error err st) = sent st"
  "console (on_error err st) = console st @ [err]"
  by (simp_all add: on_error_def setStatus_def showWeatherSection_def)

lemma submit_fields:
  "trim q \<noteq> [] \<Longrightarrow> handleSearch_submit q st = (st1, pend) \<Longrightarrow>
     pend = Some (geocodeCity_request (trim q)) \<and> ui st1 = ui st
     \<and> sent st1 = sent st @ [geocodeCity_request (trim q)] \<and> console st1 = console st
     \<and> weatherHidden st1"
  by (auto simp: handleSearch_submit_def Let_def setStatus_def showWeatherSection_def fetch_def)

lemma handleSearch_geocoding_failed:
  assumes "trim q \<noteq> []" and "geocodeCity (geocoding net (geocodeCity_request (trim q))) = Inl err"
  shows "handleSearch P net q st = on_error err (fst (handleSearch_submit q st))"
  using assms by (simp add: handleSearch_def handleSearch_submit_def Let_def handleSearch_geocoded_def)

lemma handleSearch_weather_failed:
  assumes "trim q \<noteq> []" and "geocodeCity (geocoding net (geocodeCity_request (trim q))) = Inr city"
    and "getWeather (forecast net (getWeather_request P (latitude city) (longitude city) (timezone city))) = Inl err"
  shows "handleSearch P net q st =
     on_error err (fst (handleSearch_geocoded P (geocoding net (geocodeCity_request (trim q)))
                          (fst (handleSearch_submit q st))))"
  using assms
  by (simp add: handleSearch_def handleSearch_submit_def Let_def handleSearch_geocoded_def
      handleSearch_weathered_def)

lemma geocoded_fields:
  "geocodeCity fetched = Inr city \<Longrightarrow>
     handleSearch_geocoded P fetched st =
       (fetch (getWeather_request P (latitude city) (longitude city) (timezone city))
          (setStatus (lit ''Buscando clima'' @ [ellipsis]) (Some (lit ''info'')) st),
        Some (city, getWeather_request P (latitude city) (longitude city) (timezone city)))"
  by (simp add: handleSearch_geocoded_def)

lemma weather_requests_Nil [simp]: "weather_requests [] = []"
  by (simp add: weather_requests_def)

lemma weather_requests_append [simp]: "weather_requests (xs @ ys) = weather_requests xs @ weather_requests ys"
  by (simp add: weather_requests_def)

lemma weather_requests_geocode [simp]: "weather_requests [geocodeCity_request q] = []"
  by (simp add: weather_requests_def geocodeCity_request_def)

lemma weather_requests_weather [simp]:
  "weather_requests [getWeather_request P lat lon tz] = [getWeather_request P lat lon tz]"
  by (simp add: weather_requests_def getWeather_request_def)

text \<open>
  C6, as the specification states it, fails: when \<open>fetch\<close> rejects with an exception whose
  message is empty, the status text is not that message but \<open>Erro ao buscar dados\<close>.
\<close>

theorem silent_failure_counterexample:
  "geocodeCity (geocoding silent_failure (geocodeCity_request (trim (lit ''Lisboa'')))) = Inl (HostError [])
   \<and> statusText (handleSearch sample_host silent_failure (lit ''Lisboa'') blank_page) = lit ''Erro ao buscar dados''
   \<and> statusText (handleSearch sample_host silent_failure (lit ''Lisboa'') blank_page) \<noteq> message (HostError [])"
  by (simp add: run_defs sample_defs silent_failure_def)

text \<open>
  C6, amended. In a submission with a non-empty trimmed query in which \<open>geocodeCity\<close>
  fails, or \<open>geocodeCity\<close> succeeds and \<open>getWeather\<close> fails, the status text is the
  message of the error thrown, or \<open>Erro ao buscar dados\<close> when that message is empty, the
  status class is \<open>status error\<close>, the weather section is hidden, and the ten fields are
  as before the submission. When the geocoding endpoint returns zero results the status
  text is \<open>city_not_found\<close>, the weather section is hidden, the fields are as before and
  no weather request is sent.
\<close>

theorem failure_shows_error:
  assumes "trim q \<noteq> []"
  shows "(\<forall>err. geocodeCity (geocoding net (geocodeCity_request (trim q))) = Inl err
            \<or> (\<exists>city. geocodeCity (geocoding net (geocodeCity_request (trim q))) = Inr city
                  \<and> getWeather (forecast net (getWeather_request P (latitude city) (longitude city) (timezone city))) = Inl err)
          \<longrightarrow> statusText (handleSearch P net q st)
                = (if message err = [] then lit ''Erro ao buscar dados'' else message err)
              \<and> statusClass (handleSearch P net q st) = lit ''status error''
              \<and> weatherHidden (handleSearch P net q st)
              \<and> ui (handleSearch P net q st) = ui st)
     \<and> ((\<exists>res d. geocoding net (geocodeCity_request (trim q)) = Inr res \<and> ok res \<and> json res = Inr d
                 \<and> (results d = None \<or> results d = Some []))
          \<longrightarrow> statusText (handleSearch P net q st) = city_not_found
              \<and> weatherHidden (handleSearch P net q st)
              \<and> ui (handleSearch P net q st) = ui st
              \<and> weather_requests (sent (handleSearch P net q st)) = weather_requests (sent st))"
proof -
  obtain st1 pend where s1: "handleSearch_submit q st = (st1, pend)" by (cases "handleSearch_submit q st")
  note f1 = submit_fields [OF assms s1]
  have geo: "\<And>err. geocodeCity (geocoding net (geocodeCity_request (trim q))) = Inl err \<Longrightarrow>
      handleSearch P net q st = on_error err st1"
    using handleSearch_geocoding_failed [OF assms, of net _ P st] s1 by simp
  have wea: "\<And>err city. geocodeCity (geocoding net (geocodeCity_request (trim q))) = Inr city \<Longrightarrow>
      getWeather (forecast net (getWeather_request P (latitude city) (longitude city) (timezone city))) = Inl err \<Longrightarrow>
      statusText (handleSearch P net q st)
                = (if message err = [] then lit ''Erro ao buscar dados'' else message err)
              \<and> statusClass (handleSearch P net q st) = lit ''status error''
              \<and> weatherHidden (handleSearch P net q st)
              \<and> ui (handleSearch P net q st) = ui st"
  proof -
    fix err city
    assume g: "geocodeCity (geocoding net (geocodeCity_request (trim q))) = Inr city"
      and w: "getWeather (forecast net (getWeather_request P (latitude city) (longitude city) (timezone city))) = Inl err"
    from handleSearch_weather_failed [OF assms g w, of st] s1 geocoded_fields [OF g, of P st1] f1
    show "statusText (handleSearch P net q st)
                = (if message err = [] then lit ''Erro ao buscar dados'' else message err)
              \<and> statusClass (handleSearch P net q st) = lit ''status error''
              \<and> weatherHidden (handleSearch P net q st)
              \<and> ui (handleSearch P net q st) = ui st"
      by (simp add: fetch_def setStatus_def on_error_fields)
  qed
  have part1: "\<And>err. geocodeCity (geocoding net (geocodeCity_request (trim q))) = Inl err
            \<or> (\<exists>city. geocodeCity (geocoding net (geocodeCity_request (trim q))) = Inr city
                  \<and> getWeather (forecast net (getWeather_request P (latitude city) (longitude city) (timezone city))) = Inl err)
          \<Longrightarrow> statusText (handleSearch P net q st)
                = (if message err = [] then lit ''Erro ao buscar dados'' else message err)
              \<and> statusClass (handleSearch P net q st) = lit ''status error''
              \<and> weatherHidden (handleSearch P net q st)
              \<and> ui (handleSearch P net q st) = ui st"
    using geo wea f1 by (auto simp: on_error_fields)
  have nf: "city_not_found \<noteq> []" by (simp add: city_not_found_def)
  have part2: "(\<exists>res d. geocoding net (geocodeCity_request (trim q)) = Inr res \<and> ok res \<and> json res = Inr d
                 \<and> (results d = None \<or> results d = Some []))
          \<Longrightarrow> statusText (handleSearch P net q st) = city_not_found
              \<and> weatherHidden (handleSearch P net q st)
              \<and> ui (handleSearch P net q st) = ui st
              \<and> weather_requests (sent (handleSearch P net q st)) = weather_requests (sent st)"
  proof -
    assume "\<exists>res d. geocoding net (geocodeCity_request (trim q)) = Inr res \<and> ok res \<and> json res = Inr d
                 \<and> (results d = None \<or> results d = Some [])"
    then have "geocodeCity (geocoding net (geocodeCity_request (trim q))) = Inl (Error city_not_found)"
      by (auto simp: geocodeCity_def)
    from geo [OF this] f1 nf show ?thesis
      by (simp add: on_error_fields)
  qed
  from part1 part2 show ?thesis by blast
qed

theorem failure_shows_error_witness:
  "trim (lit ''Atlantis'') \<noteq> []
   \<and> statusText (handleSearch sample_host no_match (lit ''Atlantis'') blank_page) = city_not_found
   \<and> weatherHidden (handleSearch sample_host no_match (lit ''Atlantis'') blank_page)
   \<and> statusText (handleSearch sample_host forecast_down (lit ''Atlantis'') blank_page) = weather_failed
   \<and> statusText (handleSearch sample_host silent_failure (lit ''Atlantis'') blank_page) = lit ''Erro ao buscar dados''"
  using failure_shows_error [of "lit ''Atlantis''" no_match sample_host blank_page]
    failure_shows_error [of "lit ''Atlantis''" forecast_down sample_host blank_page]
    failure_shows_error [of "lit ''Atlantis''" silent_failure sample_host blank_page]
  by (simp add: run_defs sample_defs silent_failure_def forecast_down_def city_not_found_def weather_failed_def)

section \<open>The time formatter\<close>

text \<open>
  C8. \<open>formatTimeISOToLocal\<close> returns the em dash when its input is missing, \<open>null\<close> or
  the empty string; on a non-empty string it returns what the host's
  \<open>toLocaleString\<close> gives for that instant and the supplied time zone (under \<open>pt-BR\<close>,
  two-digit day, month, hour and minute); and when the host throws it returns the input
  string unchanged.
\<close>

theorem formatTime_cases:
  "(isoTime \<in> {Undefined, Null, Val []} \<longrightarrow> formatTimeISOToLocal P isoTime tz = [em_dash])
   \<and> (\<forall>s d. isoTime = Val s \<and> s \<noteq> [] \<and> toLocaleString P s tz = Some d \<longrightarrow>
          formatTimeISOToLocal P isoTime tz = d)
   \<and> (\<forall>s. isoTime = Val s \<and> s \<noteq> [] \<and> toLocaleString P s tz = None \<longrightarrow>
          formatTimeISOToLocal P isoTime tz = s)"
  by (auto simp: formatTimeISOToLocal_def)

theorem formatTime_cases_witness:
  "formatTimeISOToLocal sample_host (Val []) (Val (lit ''America/Sao_Paulo'')) = [em_dash]
   \<and> toLocaleString sample_host (lit ''2026-11-02T10:00'') (Val (lit ''America/Sao_Paulo''))
       = Some (lit ''02/11, 10:00'')
   \<and> formatTimeISOToLocal sample_host (Val (lit ''2026-11-02T10:00'')) (Val (lit ''America/Sao_Paulo''))
       = lit ''02/11, 10:00''
   \<and> toLocaleString sample_host (lit ''2026-11-02T10:00'') (Val (lit ''Mars/Olympus'')) = None
   \<and> formatTimeISOToLocal sample_host (Val (lit ''2026-11-02T10:00'')) (Val (lit ''Mars/Olympus''))
       = lit ''2026-11-02T10:00''"
  using formatTime_cases [of "Val []" sample_host "Val (lit ''America/Sao_Paulo'')"]
    formatTime_cases [of "Val (lit ''2026-11-02T10:00'')" sample_host "Val (lit ''America/Sao_Paulo'')"]
    formatTime_cases [of "Val (lit ''2026-11-02T10:00'')" sample_host "Val (lit ''Mars/Olympus'')"]
  by (simp add: sample_host_def)

section \<open>Rendering\<close>

lemma updateUI_current:
  "current w = Val c \<Longrightarrow> updateUI P city w u =
     (None,
      u\<lparr>location := name city,
        obsTime := lit ''Atualizado: '' @ formatTimeISOToLocal P (time c) (w_timezone w),
        temp := formatNumber P (temperature_2m c) (Some ([degree_sign] @ lit ''C'')),
        code := code_text P (weather_code c),
        wind := formatNumber P (wind_speed_10m c) (Some (lit '' km/h'')) @ lit '' (''
                @ (if truthy_num (wind_direction_10m c) then string_of_num P (wind_direction_10m c)
                   else [em_dash])
                @ [degree_sign] @ lit '')'',
        humidity := formatNumber P (relative_humidity_2m c) (Some (lit ''%'')),
        apparent := formatNumber P (apparent_temperature c) (Some ([degree_sign] @ lit ''C'')),
        pressure := formatNumber P (pressure_msl c) (Some (lit '' hPa'')),
        precip := (if precipitation c \<noteq> Null \<and> precipitation c \<noteq> Undefined
                   then string_of_num P (precipitation c) else [em_dash]) @ lit '' mm'',
        cloud := formatNumber P (cloud_cover c) (Some (lit ''%''))\<rparr>)"
  by (simp add: updateUI_def)

text \<open>
  C7, as the specification states it, fails: the precipitation is not rendered by the
  numeric formatter. A precipitation of 1.5 is shown as \<open>1.5 mm\<close>, where
  \<open>formatNumber\<close> gives \<open>2 mm\<close>.
\<close>

theorem precipitation_unrounded_counterexample:
  "precip (snd (updateUI sample_host sao_paulo_place sample_payload (ui blank_page))) = lit ''1.5 mm''
   \<and> formatNumber sample_host (precipitation sample_conditions) (Some (lit '' mm'')) = lit ''2 mm''"
  by (simp add: updateUI_def sample_defs number_defs)

text \<open>
  C7, amended. On a payload with a \<open>current\<close> object \<open>updateUI\<close> throws nothing and
  overwrites all ten fields, whatever they held: the location with the name of the
  place; the observation time with \<open>Atualizado:\<close>, a space and the time formatter's
  output; temperature, apparent temperature, humidity, pressure and cloud cover with the
  numeric formatter's output under their units; the condition with the code lookup; the
  precipitation with the value as it is, not rounded (the em dash when it is missing or
  \<open>null\<close>), followed by \<open>mm\<close>; the wind with the numeric formatter's output for the speed
  followed by the direction in brackets with a degree sign, the direction being the value
  as it is when that value is truthy.
\<close>

theorem updateUI_renders:
  assumes "current w = Val c"
  shows "fst (updateUI P city w u) = None
     \<and> snd (updateUI P city w u) = snd (updateUI P city w u')
     \<and> location (snd (updateUI P city w u)) = name city
     \<and> obsTime (snd (updateUI P city w u)) = lit ''Atualizado: '' @ formatTimeISOToLocal P (time c) (w_timezone w)
     \<and> temp (snd (updateUI P city w u)) = formatNumber P (temperature_2m c) (Some ([degree_sign] @ lit ''C''))
     \<and> code (snd (updateUI P city w u)) = code_text P (weather_code c)
     \<and> humidity (snd (updateUI P city w u)) = formatNumber P (relative_humidity_2m c) (Some (lit ''%''))
     \<and> apparent (snd (updateUI P city w u)) = formatNumber P (apparent_temperature c) (Some ([degree_sign] @ lit ''C''))
     \<and> pressure (snd (updateUI P city w u)) = formatNumber P (pressure_msl c) (Some (lit '' hPa''))
     \<and> cloud (snd (updateUI P city w u)) = formatNumber P (cloud_cover c) (Some (lit ''%''))
     \<and> precip (snd (updateUI P city w u))
         = (if precipitation c \<in> {Null, Undefined} then [em_dash] else string_of_num P (precipitation c)) @ lit '' mm''
     \<and> (\<exists>dir. wind (snd (updateUI P city w u))
                 = formatNumber P (wind_speed_10m c) (Some (lit '' km/h'')) @ lit '' ('' @ dir @ [degree_sign] @ lit '')''
               \<and> (truthy_num (wind_direction_10m c) \<longrightarrow> dir = string_of_num P (wind_direction_10m c)))"
  using updateUI_current [OF assms, of P city]
  by (cases u, cases u') (auto simp del: string_of_num.simps)

theorem updateUI_renders_witness:
  "current sample_payload = Val sample_conditions
   \<and> temp (snd (updateUI sample_host sao_paulo_place sample_payload (ui blank_page))) = lit ''22'' @ [degree_sign] @ lit ''C''
   \<and> code (snd (updateUI sample_host sao_paulo_place sample_payload (ui blank_page))) = lit ''Nublado''
   \<and> truthy_num (Val (Finite 180))
   \<and> wind (snd (updateUI sample_host sao_paulo_place
        (sample_payload\<lparr>current := Val (sample_conditions\<lparr>wind_direction_10m := Val (Finite 180)\<rparr>)\<rparr>) (ui blank_page)))
       = lit ''12 km/h (180'' @ [degree_sign] @ lit '')''"
  using updateUI_renders [of sample_payload sample_conditions sample_host sao_paulo_place "ui blank_page" "ui blank_page"]
    updateUI_renders [of "sample_payload\<lparr>current := Val (sample_conditions\<lparr>wind_direction_10m := Val (Finite 180)\<rparr>)\<rparr>"
      "sample_conditions\<lparr>wind_direction_10m := Val (Finite 180)\<rparr>" sample_host sao_paulo_place "ui blank_page" "ui blank_page"]
  by (simp add: updateUI_def sample_defs number_defs code_text_def lookup_code_def WEATHER_CODE_MAP_def property_key_def)

text \<open>
  C10. On a payload whose wind direction is 0, the wind field ends with the em dash and
  the degree sign in brackets, not with \<open>0\<close>: the direction is tested for truthiness. On
  a wind direction that is a number other than 0 (and not \<open>NaN\<close>) the field shows the
  string of that number, as it is, followed by the degree sign.
\<close>

theorem wind_direction_zero:
  assumes "current w = Val c"
  shows "(wind_direction_10m c = Val (Finite 0) \<longrightarrow>
            wind (snd (updateUI P city w u))
              = formatNumber P (wind_speed_10m c) (Some (lit '' km/h'')) @ lit '' ('' @ [em_dash] @ [degree_sign] @ lit '')''
          \<and> wind (snd (updateUI P city w u))
              \<noteq> formatNumber P (wind_speed_10m c) (Some (lit '' km/h'')) @ lit '' (0'' @ [degree_sign] @ lit '')'')
     \<and> (\<forall>d. wind_direction_10m c = Val d \<and> d \<noteq> Finite 0 \<and> d \<noteq> NaN \<longrightarrow>
            wind (snd (updateUI P city w u))
              = formatNumber P (wind_speed_10m c) (Some (lit '' km/h'')) @ lit '' ('' @ number_to_string P d
                  @ [degree_sign] @ lit '')'')"
  using updateUI_current [OF assms, of P city u]
  by (auto simp: em_dash_def simp del: number_to_string.simps)

theorem wind_direction_zero_witness:
  "current sample_payload = Val sample_conditions
   \<and> wind_direction_10m sample_conditions = Val (Finite 0)
   \<and> wind (snd (updateUI sample_host sao_paulo_place sample_payload (ui blank_page)))
       = lit ''12 km/h ('' @ [em_dash, degree_sign] @ lit '')''
   \<and> wind (snd (updateUI sample_host sao_paulo_place
        (sample_payload\<lparr>current := Val (sample_conditions\<lparr>wind_direction_10m := Val (Finite 270)\<rparr>)\<rparr>) (ui blank_page)))
       = lit ''12 km/h (270'' @ [degree_sign] @ lit '')''"
  using wind_direction_zero [of sample_payload sample_conditions sample_host sao_paulo_place "ui blank_page"]
    wind_direction_zero [of "sample_payload\<lparr>current := Val (sample_conditions\<lparr>wind_direction_10m := Val (Finite 270)\<rparr>)\<rparr>"
      "sample_conditions\<lparr>wind_direction_10m := Val (Finite 270)\<rparr>" sample_host sao_paulo_place "ui blank_page"]
  by (simp add: updateUI_def sample_defs number_defs)

section \<open>The order of the two requests\<close>

lemma sent_submit:
  "sent (fst (handleSearch_submit q st)) = sent st @ (if trim q = [] then [] else [geocodeCity_request (trim q)])"
  by (simp add: handleSearch_submit_def Let_def fetch_def setStatus_def showWeatherSection_def)

lemma sent_geocoded:
  "sent (fst (handleSearch_geocoded P fetched st)) =
     sent st @ (case geocodeCity fetched of
                  Inl err \<Rightarrow> []
                | Inr city \<Rightarrow> [getWeather_request P (latitude city) (longitude city) (timezone city)])"
  by (simp add: handleSearch_geocoded_def fetch_def setStatus_def on_error_fields split: sum.splits)

lemma sent_weathered: "sent (handleSearch_weathered P city fetched st) = sent st"
  by (simp add: handleSearch_weathered_def on_error_fields setStatus_def showWeatherSection_def
      split: sum.splits prod.splits option.splits)

lemma sent_handleSearch:
  "sent (handleSearch P net q st) =
     sent st @ (if trim q = [] then []
                else geocodeCity_request (trim q)
                     # (case geocodeCity (geocoding net (geocodeCity_request (trim q))) of
                          Inl err \<Rightarrow> []
                        | Inr city \<Rightarrow> [getWeather_request P (latitude city) (longitude city) (timezone city)]))"
proof (cases "trim q = []")
  case True
  then show ?thesis by (simp add: handleSearch_def handleSearch_submit_def)
next
  case False
  obtain st1 where s1: "handleSearch_submit q st = (st1, Some (geocodeCity_request (trim q)))"
    using False by (simp add: handleSearch_submit_def Let_def)
  have a: "sent st1 = sent st @ [geocodeCity_request (trim q)]"
    using sent_submit [of q st] s1 False by simp
  show ?thesis
  proof (cases "geocodeCity (geocoding net (geocodeCity_request (trim q)))")
    case (Inl err)
    then show ?thesis
      using False s1 a by (simp add: handleSearch_def handleSearch_geocoded_def on_error_fields)
  next
    case (Inr city)
    then show ?thesis
      using False s1 a
      by (simp add: handleSearch_def handleSearch_geocoded_def sent_weathered fetch_def setStatus_def)
  qed
qed

text \<open>
  C9. Up to its first \<open>await\<close>, while the geocoding request has not settled, a submission
  has sent no weather request. When it is resumed with a geocoding failure it sends
  nothing and ends in the \<open>catch\<close> block; when it is resumed with a place it sends the
  weather request for that place. So a whole submission sends no weather request when
  geocoding fails, sends the geocoding request and then the weather request when
  geocoding succeeds, and has sent a weather request only if geocoding succeeded.
\<close>

theorem weather_request_after_geocoding:
  "weather_requests (sent (fst (handleSearch_submit q st))) = weather_requests (sent st)
   \<and> (\<forall>err. geocodeCity fetched = Inl err \<longrightarrow>
         handleSearch_geocoded P fetched st = (on_error err st, None)
         \<and> sent (fst (handleSearch_geocoded P fetched st)) = sent st)
   \<and> (\<forall>city. geocodeCity fetched = Inr city \<longrightarrow>
         sent (fst (handleSearch_geocoded P fetched st))
           = sent st @ [getWeather_request P (latitude city) (longitude city) (timezone city)])
   \<and> (\<forall>err. geocodeCity (geocoding net (geocodeCity_request (trim q))) = Inl err \<longrightarrow>
         weather_requests (sent (handleSearch P net q st)) = weather_requests (sent st))
   \<and> (\<forall>city. trim q \<noteq> [] \<and> geocodeCity (geocoding net (geocodeCity_request (trim q))) = Inr city \<longrightarrow>
         sent (handleSearch P net q st)
           = sent st @ [geocodeCity_request (trim q),
                        getWeather_request P (latitude city) (longitude city) (timezone city)])
   \<and> (weather_requests (sent (handleSearch P net q st)) \<noteq> weather_requests (sent st) \<longrightarrow>
         trim q \<noteq> [] \<and> (\<exists>city. geocodeCity (geocoding net (geocodeCity_request (trim q))) = Inr city))"
proof -
  have 1: "weather_requests (sent (fst (handleSearch_submit q st))) = weather_requests (sent st)"
    by (simp add: sent_submit)
  have 2: "\<And>err. geocodeCity fetched = Inl err \<Longrightarrow>
         handleSearch_geocoded P fetched st = (on_error err st, None)
         \<and> sent (fst (handleSearch_geocoded P fetched st)) = sent st"
    by (simp add: sent_geocoded) (simp add: handleSearch_geocoded_def)
  have 3: "\<And>city. geocodeCity fetched = Inr city \<Longrightarrow>
         sent (fst (handleSearch_geocoded P fetched st))
           = sent st @ [getWeather_request P (latitude city) (longitude city) (timezone city)]"
    by (simp add: sent_geocoded)
  have 4: "\<And>err. geocodeCity (geocoding net (geocodeCity_request (trim q))) = Inl err \<Longrightarrow>
         weather_requests (sent (handleSearch P net q st)) = weather_requests (sent st)"
    by (simp add: sent_handleSearch)
  have 5: "\<And>city. trim q \<noteq> [] \<and> geocodeCity (geocoding net (geocodeCity_request (trim q))) = Inr city \<Longrightarrow>
         sent (handleSearch P net q st)
           = sent st @ [geocodeCity_request (trim q),
                        getWeather_request P (latitude city) (longitude city) (timezone city)]"
    by (simp add: sent_handleSearch)
  have 6: "weather_requests (sent (handleSearch P net q st)) \<noteq> weather_requests (sent st) \<Longrightarrow>
         trim q \<noteq> [] \<and> (\<exists>city. geocodeCity (geocoding net (geocodeCity_request (trim q))) = Inr city)"
    by (cases "geocodeCity (geocoding net (geocodeCity_request (trim q)))")
       (auto simp: sent_handleSearch split: if_splits)
  from 1 2 3 4 5 6 show ?thesis by blast
qed

theorem weather_request_after_geocoding_witness:
  "geocodeCity nothing_found = Inl (Error city_not_found)
   \<and> sent (fst (handleSearch_geocoded sample_host nothing_found blank_page)) = []
   \<and> geocodeCity sao_paulo_found = Inr sao_paulo_place
   \<and> sent (handleSearch sample_host online (lit ''Sampa'') blank_page)
       = [geocodeCity_request (lit ''Sampa''),
          getWeather_request sample_host (Val (Finite (- 47 / 2))) (Val (Finite (- 93 / 2))) (Val (lit ''America/Sao_Paulo''))]
   \<and> weather_requests (sent (handleSearch sample_host online (lit ''Sampa'') blank_page)) \<noteq> weather_requests (sent blank_page)
   \<and> sent (handleSearch sample_host no_match (lit ''Sampa'') blank_page) = [geocodeCity_request (lit ''Sampa'')]"
  using weather_request_after_geocoding [of "lit ''Sampa''" blank_page nothing_found sample_host no_match]
    weather_request_after_geocoding [of "lit ''Sampa''" blank_page sao_paulo_found sample_host online]
  by (simp add: run_defs sample_defs updateUI_def weather_requests_def getWeather_request_def)

end
